theory Spec2Isabelle
  imports Main "HOL-Library.AList" "HOL-Library.Sublist"
begin

section \<open>The compile workload of \<^verbatim>\<open>workload.py\<close>\<close>

text \<open>
  The script clones a project, walks the target directory, builds the project, walks the
  directory again, appends one row to a CSV file, removes the clone and prints the row.
  Everything it does is an effect on the operating system, so the embedding threads an
  explicit world through every function: the file system, the working directory of the
  process, the wall clock, the log of launched child processes and the standard output.
  An exception is a value \<open>Inl e\<close>; the world reached when it was raised is returned with
  it, as the process keeps that world when the exception unwinds.
\<close>

subsection \<open>Path strings (\<^verbatim>\<open>os.path\<close> on POSIX)\<close>

text \<open>
  Paths are Python strings. \<open>splitc\<close> is \<^verbatim>\<open>p.split('/')\<close>; a path is resolved
  lexically against the working directory: empty components and \<^verbatim>\<open>.\<close> are skipped,
  \<^verbatim>\<open>..\<close> drops the last component. Symbolic links are outside the embedding.
\<close>

fun splitc :: "string \<Rightarrow> string list" where
  "splitc [] = [[]]"
| "splitc (c # cs) =
     (if c = CHR ''/'' then [] # splitc cs
      else (case splitc cs of [] \<Rightarrow> [[c]] | x # xs \<Rightarrow> (c # x) # xs))"

definition norm_step :: "string list \<Rightarrow> string \<Rightarrow> string list" where
  "norm_step st c =
     (if c = [] \<or> c = ''.'' then st else if c = ''..'' then butlast st else st @ [c])"

definition isabs :: "string \<Rightarrow> bool" where
  "isabs p = (case p of [] \<Rightarrow> False | c # _ \<Rightarrow> c = CHR ''/'')"

definition resolve :: "string list \<Rightarrow> string \<Rightarrow> string list" where
  "resolve cw p = foldl norm_step (if isabs p then [] else cw) (splitc p)"

text \<open>\<^verbatim>\<open>os.path.join(a, b)\<close> with one extra component.\<close>

definition join :: "string \<Rightarrow> string \<Rightarrow> string" where
  "join a b =
     (if isabs b then b
      else if a = [] \<or> last a = CHR ''/'' then a @ b
      else a @ ''/'' @ b)"

text \<open>The string \<^verbatim>\<open>os.getcwd()\<close> returns for a list of components.\<close>

definition abspath_str :: "string list \<Rightarrow> string" where
  "abspath_str cs = (if cs = [] then ''/'' else concat (map (\<lambda>c. CHR ''/'' # c) cs))"

text \<open>A name that a directory entry can have.\<close>

definition valid_name :: "string \<Rightarrow> bool" where
  "valid_name n = (n \<noteq> [] \<and> n \<noteq> ''.'' \<and> n \<noteq> ''..'' \<and> CHR ''/'' \<notin> set n)"

subsection \<open>The file system\<close>

text \<open>
  A regular file holds its bytes; a directory holds named entries. An entry list is read
  as a table: looking a name up takes its first entry.
\<close>

datatype node = File string | Dir "(string \<times> node) list"

fun is_dir :: "node \<Rightarrow> bool" where
  "is_dir (Dir es) = True"
| "is_dir (File s) = False"

fun lookup :: "node \<Rightarrow> string list \<Rightarrow> node option" where
  "lookup n [] = Some n"
| "lookup (File s) (c # cs) = None"
| "lookup (Dir es) (c # cs) =
     (case map_of es c of None \<Rightarrow> None | Some ch \<Rightarrow> lookup ch cs)"

text \<open>
  \<open>put r p n\<close> stores \<open>n\<close> at path \<open>p\<close>: it replaces the node there, or adds a new entry
  to an existing parent directory. \<open>del r p\<close> removes the entry at \<open>p\<close> with all below it.
\<close>

fun put :: "node \<Rightarrow> string list \<Rightarrow> node \<Rightarrow> node" where
  "put r [] n = n"
| "put (File s) (c # cs) n = File s"
| "put (Dir es) (c # cs) n =
     (case map_of es c of
        None \<Rightarrow> (if cs = [] then Dir (es @ [(c, n)]) else Dir es)
      | Some ch \<Rightarrow> Dir (AList.update c (put ch cs n) es))"

fun del :: "node \<Rightarrow> string list \<Rightarrow> node" where
  "del r [] = r"
| "del (File s) (c # cs) = File s"
| "del (Dir es) (c # cs) =
     (if cs = [] then Dir (AList.delete c es)
      else (case map_of es c of
              None \<Rightarrow> Dir es
            | Some ch \<Rightarrow> Dir (AList.update c (del ch cs) es)))"


subsection \<open>Exceptions, values and the world\<close>

datatype error =
    TypeError string
  | ValueError string
  | FileNotFoundError
  | NotADirectoryError
  | IsADirectoryError
  | LaunchError string

text \<open>
  A value stored in the results dictionary. Floating point is outside the embedding: a
  reading of \<^verbatim>\<open>time.time()\<close> is a whole number of clock ticks, and so is a duration.
\<close>

datatype val = VStr string | VInt int | VFloat int

text \<open>
  \<open>clock\<close> gives the successive readings of \<^verbatim>\<open>time.time()\<close> and \<open>reads\<close> counts the
  readings taken; nothing makes the wall clock monotone. \<open>calls\<close> logs every child
  process the script launches, with the working directory it was launched from and the
  number of clock readings taken before the launch; \<open>stdout\<close> holds the dictionaries
  printed.
\<close>

record world =
  fs :: node
  cwd :: "string list"
  clock :: "nat \<Rightarrow> int"
  reads :: nat
  calls :: "(string list \<times> string list \<times> nat) list"
  stdout :: "(string \<times> val) list list"

type_synonym 'a io = "world \<Rightarrow> (error + 'a) \<times> world"

definition io_return :: "'a \<Rightarrow> 'a io" where
  "io_return x w = (Inr x, w)"

definition io_raise :: "error \<Rightarrow> 'a io" where
  "io_raise e w = (Inl e, w)"

definition io_bind :: "'a io \<Rightarrow> ('a \<Rightarrow> 'b io) \<Rightarrow> 'b io" where
  "io_bind m f w = (case m w of (Inl e, w') \<Rightarrow> (Inl e, w') | (Inr x, w') \<Rightarrow> f x w')"

text \<open>
  A child process is a parameter of the model: from its argument vector, the working
  directory and the file system it either cannot be launched (\<^verbatim>\<open>subprocess.call\<close>
  raises) or it ends with an exit status and leaves a file system behind.
\<close>

type_synonym proc = "string list \<Rightarrow> string list \<Rightarrow> node \<Rightarrow> error + (int \<times> node)"

subsection \<open>Operating-system primitives\<close>

definition node_at :: "world \<Rightarrow> string \<Rightarrow> node option" where
  "node_at w p = (if p = [] then None else lookup (fs w) (resolve (cwd w) p))"

text \<open>The exception a failed look-up raises: a regular file on the way, or a missing name.\<close>

fun lookup_error :: "node \<Rightarrow> string list \<Rightarrow> error" where
  "lookup_error n [] = FileNotFoundError"
| "lookup_error (File s) (c # cs) = NotADirectoryError"
| "lookup_error (Dir es) (c # cs) =
     (case map_of es c of None \<Rightarrow> FileNotFoundError | Some ch \<Rightarrow> lookup_error ch cs)"

definition path_error :: "world \<Rightarrow> string \<Rightarrow> error" where
  "path_error w p =
     (if p = [] then FileNotFoundError else lookup_error (fs w) (resolve (cwd w) p))"

definition path_exists :: "world \<Rightarrow> string \<Rightarrow> bool" where
  "path_exists w p = (node_at w p \<noteq> None)"

definition path_isdir :: "world \<Rightarrow> string \<Rightarrow> bool" where
  "path_isdir w p = (case node_at w p of Some (Dir es) \<Rightarrow> True | _ \<Rightarrow> False)"

definition listdir :: "string \<Rightarrow> string list io" where
  "listdir p w =
     (case node_at w p of
        Some (Dir es) \<Rightarrow> (Inr (map fst es), w)
      | Some (File s) \<Rightarrow> (Inl NotADirectoryError, w)
      | None \<Rightarrow> (Inl (path_error w p), w))"

definition time_time :: "int io" where
  "time_time w = (Inr (clock w (reads w)), w\<lparr>reads := Suc (reads w)\<rparr>)"

definition getcwd :: "string io" where
  "getcwd w =
     (case lookup (fs w) (cwd w) of
        Some (Dir es) \<Rightarrow> (Inr (abspath_str (cwd w)), w)
      | _ \<Rightarrow> (Inl FileNotFoundError, w))"

definition chdir :: "string \<Rightarrow> unit io" where
  "chdir p w =
     (case node_at w p of
        Some (Dir es) \<Rightarrow> (Inr (), w\<lparr>cwd := resolve (cwd w) p\<rparr>)
      | Some (File s) \<Rightarrow> (Inl NotADirectoryError, w)
      | None \<Rightarrow> (Inl (path_error w p), w))"

text \<open>\<^verbatim>\<open>os.path.getsize\<close>. The size of a directory inode depends on the file system.\<close>

definition getsize :: "world \<Rightarrow> string \<Rightarrow> error + nat" where
  "getsize w p =
     (case node_at w p of
        Some (File s) \<Rightarrow> Inr (length s)
      | Some (Dir es) \<Rightarrow> Inr 4096
      | None \<Rightarrow> Inl (path_error w p))"

text \<open>
  \<^verbatim>\<open>subprocess.call(argv)\<close>: the launch is logged, the child changes the file system, and
  its exit status is the result.
\<close>

definition call :: "proc \<Rightarrow> string list \<Rightarrow> int io" where
  "call exec argv w =
     (let w1 = w\<lparr>calls := calls w @ [(argv, cwd w, reads w)]\<rparr>
      in case exec argv (cwd w) (fs w) of
           Inl e \<Rightarrow> (Inl e, w1)
         | Inr (rc, fs') \<Rightarrow> (Inr rc, w1\<lparr>fs := fs'\<rparr>))"

text \<open>
  \<^verbatim>\<open>os.walk(top)\<close>, top down: one triple (root, dirs, files) for every directory; a top
  that cannot be listed yields nothing, as the walk ignores the error of its scan. The
  walk descends into the entries it has listed; in a well-formed tree an entry is the node
  that \<^verbatim>\<open>join(root, name)\<close> names, which is where \<^verbatim>\<open>statdir\<close> asks for its size.
\<close>

fun walk :: "string \<Rightarrow> node \<Rightarrow> (string \<times> string list \<times> string list) list" where
  "walk root (File s) = []"
| "walk root (Dir es) =
     (root, map fst (filter (\<lambda>(n, c). is_dir c) es), map fst (filter (\<lambda>(n, c). \<not> is_dir c) es))
     # concat (map (\<lambda>(n, c). if is_dir c then walk (join root n) c else []) es)"

definition os_walk :: "world \<Rightarrow> string \<Rightarrow> (string \<times> string list \<times> string list) list" where
  "os_walk w p = (case node_at w p of None \<Rightarrow> [] | Some n \<Rightarrow> walk p n)"

text \<open>\<^verbatim>\<open>shutil.rmtree(p)\<close>: removes the directory at \<open>p\<close> with everything below it.\<close>

definition rmtree :: "string \<Rightarrow> unit io" where
  "rmtree p w =
     (case node_at w p of
        Some (Dir es) \<Rightarrow> (Inr (), w\<lparr>fs := del (fs w) (resolve (cwd w) p)\<rparr>)
      | Some (File s) \<Rightarrow> (Inl NotADirectoryError, w)
      | None \<Rightarrow> (Inl (path_error w p), w))"

text \<open>
  \<^verbatim>\<open>open(p, 'a')\<close>: the file is created when it is missing and its directory exists.
  The handle is the resolved path; \<open>fwrite\<close> appends text to the file there.
\<close>

definition open_append :: "string \<Rightarrow> string list io" where
  "open_append p w =
     (let q = resolve (cwd w) p
      in case node_at w p of
           Some (File s) \<Rightarrow> (Inr q, w)
         | Some (Dir es) \<Rightarrow> (Inl IsADirectoryError, w)
         | None \<Rightarrow>
             (if p = [] then (Inl FileNotFoundError, w)
              else case lookup (fs w) (butlast q) of
                     Some (Dir es) \<Rightarrow> (Inr q, w\<lparr>fs := put (fs w) q (File [])\<rparr>)
                   | _ \<Rightarrow> (Inl (path_error w p), w)))"

definition fwrite :: "string list \<Rightarrow> string \<Rightarrow> unit io" where
  "fwrite q txt w =
     (case lookup (fs w) q of
        Some (File s) \<Rightarrow> (Inr (), w\<lparr>fs := put (fs w) q (File (s @ txt))\<rparr>)
      | _ \<Rightarrow> (Inl FileNotFoundError, w))"

definition print_json :: "(string \<times> val) list \<Rightarrow> unit io" where
  "print_json d w = (Inr (), w\<lparr>stdout := stdout w @ [d]\<rparr>)"

subsection \<open>Projects and results keys\<close>

record project =
  repo :: string
  cmds :: "string list list"

definition PROJECTS :: "(string \<times> project) list" where
  "PROJECTS =
     [(''redis'', \<lparr>repo = ''git@github.com:antirez/redis.git'',
         cmds = [[''make'']]\<rparr>),
      (''postgres'', \<lparr>repo = ''git@github.com:postgres/postgres.git'',
         cmds = [[''./configure''], [''make'']]\<rparr>),
      (''nginx'', \<lparr>repo = ''git@github.com:nginx/nginx.git'',
         cmds = [[''./auto/configure''], [''make'']]\<rparr>),
      (''apache'', \<lparr>repo = ''git@github.com:apache/httpd.git'',
         cmds = [[''git'', ''clone'', ''git@github.com:apache/apr.git'', ''srclib/apr''],
                 [''./buildconf''],
                 [''./configure'', ''--with-included-apr''],
                 [''make'']]\<rparr>),
      (''ruby'', \<lparr>repo = ''git@github.com:ruby/ruby.git'',
         cmds = [[''autoconf''], [''./configure''], [''make'']]\<rparr>),
      (''python'', \<lparr>repo = ''git@github.com:python/cpython.git'',
         cmds = [[''./configure''], [''make'']]\<rparr>)]"

definition TEST_NAME :: string where "TEST_NAME = ''test name''"
definition TEST_PATH :: string where "TEST_PATH = ''test path''"
definition CLONE_TIME :: string where "CLONE_TIME = ''clone time''"
definition CLONE_STAT :: string where "CLONE_STAT = ''clone stat''"
definition CLONE_BYTES :: string where "CLONE_BYTES = ''clone bytes''"
definition CLONE_FILES :: string where "CLONE_FILES = ''clone files''"
definition CLONE_DIRS :: string where "CLONE_DIRS = ''clone dirs''"
definition BUILD_TIME :: string where "BUILD_TIME = ''build time''"
definition BUILD_STAT :: string where "BUILD_STAT = ''build stat''"
definition BUILD_BYTES :: string where "BUILD_BYTES = ''build bytes''"
definition BUILD_FILES :: string where "BUILD_FILES = ''build files''"
definition BUILD_DIRS :: string where "BUILD_DIRS = ''build dirs''"

definition TEST_RESULTS :: "string list" where
  "TEST_RESULTS = [TEST_NAME, TEST_PATH, CLONE_TIME, BUILD_TIME]"

definition CLONE_RESULTS :: "string list" where
  "CLONE_RESULTS = [CLONE_STAT, CLONE_BYTES, CLONE_FILES, CLONE_DIRS]"

definition BUILD_RESULTS :: "string list" where
  "BUILD_RESULTS = [BUILD_STAT, BUILD_BYTES, BUILD_FILES, BUILD_DIRS]"

subsection \<open>Helper functions\<close>

text \<open>
  The decorator \<^verbatim>\<open>timeit\<close>: one clock reading before the call and one after it; when the
  call raises, the second reading is not taken.
\<close>

definition timeit :: "'a io \<Rightarrow> ('a \<times> int) io" where
  "timeit func =
     io_bind time_time (\<lambda>started.
     io_bind func (\<lambda>result.
     io_bind time_time (\<lambda>ended.
     io_return (result, ended - started))))"

text \<open>
  The decorator \<^verbatim>\<open>withcwd\<close>: \<^verbatim>\<open>try: return func() finally: os.chdir(cwd)\<close>. The
  \<^verbatim>\<open>finally\<close> clause runs after a result and after an exception alike; when its own
  \<^verbatim>\<open>os.chdir\<close> raises, that exception replaces the outcome of the call.
\<close>

definition withcwd :: "'a io \<Rightarrow> 'a io" where
  "withcwd func w =
     (case getcwd w of
        (Inl e, w1) \<Rightarrow> (Inl e, w1)
      | (Inr saved, w1) \<Rightarrow>
          (case func w1 of
             (outcome, w2) \<Rightarrow>
               (case chdir saved w2 of
                  (Inl e, w3) \<Rightarrow> (Inl e, w3)
                | (Inr u, w3) \<Rightarrow> (outcome, w3))))"

fun sum_sizes :: "world \<Rightarrow> string \<Rightarrow> string list \<Rightarrow> error + nat" where
  "sum_sizes w root [] = Inr 0"
| "sum_sizes w root (name # names) =
     (case getsize w (join root name) of
        Inl e \<Rightarrow> Inl e
      | Inr s \<Rightarrow> (case sum_sizes w root names of Inl e \<Rightarrow> Inl e | Inr t \<Rightarrow> Inr (s + t)))"

fun stat_loop ::
  "world \<Rightarrow> (string \<times> string list \<times> string list) list \<Rightarrow> nat \<times> nat \<times> nat
     \<Rightarrow> error + nat \<times> nat \<times> nat" where
  "stat_loop w [] acc = Inr acc"
| "stat_loop w ((root, dirs, files) # rest) (n_bytes, n_files, n_dirs) =
     (case sum_sizes w root files of
        Inl e \<Rightarrow> Inl e
      | Inr s \<Rightarrow> stat_loop w rest (n_bytes + s, n_files + length files, n_dirs + length dirs))"

text \<open>The body of \<^verbatim>\<open>statdir\<close>, before the decorator.\<close>

definition statdir_body :: "string \<Rightarrow> (nat \<times> nat \<times> nat) io" where
  "statdir_body path w =
     (case stat_loop w (os_walk w path) (0, 0, 0) of
        Inl e \<Rightarrow> (Inl e, w)
      | Inr r \<Rightarrow> (Inr r, w))"

definition statdir :: "string \<Rightarrow> ((nat \<times> nat \<times> nat) \<times> int) io" where
  "statdir path = timeit (statdir_body path)"

definition clone :: "proc \<Rightarrow> string \<Rightarrow> string \<Rightarrow> (unit \<times> int) io" where
  "clone exec rp path =
     timeit (io_bind (call exec [''git'', ''clone'', rp, path]) (\<lambda>rc. io_return ()))"

fun run_cmds :: "proc \<Rightarrow> string list list \<Rightarrow> unit io" where
  "run_cmds exec [] = io_return ()"
| "run_cmds exec (cmd # rest) = io_bind (call exec cmd) (\<lambda>rc. run_cmds exec rest)"

definition build :: "proc \<Rightarrow> string list list \<Rightarrow> string \<Rightarrow> (unit \<times> int) io" where
  "build exec cs path =
     timeit (withcwd (io_bind (chdir path) (\<lambda>u. run_cmds exec cs)))"

subsection \<open>The CSV writer (\<^verbatim>\<open>csv.DictWriter\<close>, default dialect)\<close>

definition digit_char :: "nat \<Rightarrow> char" where
  "digit_char d = char_of (48 + d)"

function str_nat :: "nat \<Rightarrow> string" where
  "str_nat n = (if n < 10 then [digit_char n] else str_nat (n div 10) @ [digit_char (n mod 10)])"
  by pat_completeness auto
termination
  by (relation "measure (\<lambda>n. n)") auto

definition str_int :: "int \<Rightarrow> string" where
  "str_int i = (if i < 0 then CHR ''-'' # str_nat (nat (- i)) else str_nat (nat i))"

text \<open>
  \<^verbatim>\<open>str(v)\<close>, as the writer applies it to a value that is not a string; a duration is
  written as its number of clock ticks.
\<close>

fun str_val :: "val \<Rightarrow> string" where
  "str_val (VStr s) = s"
| "str_val (VInt i) = str_int i"
| "str_val (VFloat t) = str_int t"

text \<open>
  Minimal quoting: a field holding the delimiter, the quote character or a character of
  the line terminator is put in quotes, with every quote character doubled.
\<close>

definition csv_special :: "char \<Rightarrow> bool" where
  "csv_special c = (c = CHR '','' \<or> c = CHR 0x22 \<or> c = CHR 0x0D \<or> c = CHR 0x0A)"

definition csv_field :: "string \<Rightarrow> string" where
  "csv_field s =
     (if list_ex csv_special s
      then CHR 0x22 # concat (map (\<lambda>c. if c = CHR 0x22 then [c, c] else [c]) s) @ [CHR 0x22]
      else s)"

fun intercalate :: "string \<Rightarrow> string list \<Rightarrow> string" where
  "intercalate sep [] = []"
| "intercalate sep [x] = x"
| "intercalate sep (x # y # ys) = x @ sep @ intercalate sep (y # ys)"

definition csv_line :: "val list \<Rightarrow> string" where
  "csv_line row = intercalate '','' (map (\<lambda>v. csv_field (str_val v)) row) @ [CHR 0x0D, CHR 0x0A]"

text \<open>
  \<^verbatim>\<open>DictWriter._dict_to_list\<close>: a key outside the field names raises; a field name
  without a value gives the empty string.
\<close>

definition dict_to_list :: "string list \<Rightarrow> (string \<times> val) list \<Rightarrow> error + val list" where
  "dict_to_list fieldnames d =
     (if list_ex (\<lambda>k. k \<notin> set fieldnames) (map fst d)
      then Inl (ValueError ''dict contains fields not in fieldnames'')
      else Inr (map (\<lambda>k. case map_of d k of None \<Rightarrow> VStr [] | Some v \<Rightarrow> v) fieldnames))"

definition writerow :: "string list \<Rightarrow> string list \<Rightarrow> (string \<times> val) list \<Rightarrow> unit io" where
  "writerow fobj fieldnames d =
     (case dict_to_list fieldnames d of
        Inl e \<Rightarrow> io_raise e
      | Inr row \<Rightarrow> fwrite fobj (csv_line row))"

definition writeheader :: "string list \<Rightarrow> string list \<Rightarrow> unit io" where
  "writeheader fobj fieldnames = writerow fobj fieldnames (zip fieldnames (map VStr fieldnames))"

subsection \<open>Run workload\<close>

text \<open>\<^verbatim>\<open>for key, val in pairs: results[key] = val\<close> on a dictionary kept in insertion order.\<close>

fun store_all :: "(string \<times> val) list \<Rightarrow> (string \<times> val) list \<Rightarrow> (string \<times> val) list" where
  "store_all [] results = results"
| "store_all ((key, v) # rest) results = store_all rest (AList.update key v results)"

text \<open>
  The first part of \<^verbatim>\<open>run_workload\<close> (lines 179 to 212): the checks of the target and
  of the project, the clone, the build and the two walks. It returns the results
  dictionary.
\<close>

definition measure_workload :: "proc \<Rightarrow> string \<Rightarrow> string \<Rightarrow> (string \<times> val) list io" where
  "measure_workload exec path proj w =
     (if \<not> path_exists w path \<or> \<not> path_isdir w path
      then (Inl (TypeError (path @ '' must be an existing directory!'')), w)
      else
       io_bind (listdir path) (\<lambda>names.
         if length names > 0 then io_raise (ValueError (path @ '' is not empty!''))
         else
           (case map_of PROJECTS proj of
              None \<Rightarrow>
                io_raise (ValueError (''unknown project '' @ [CHR 0x27] @ proj @ [CHR 0x27]))
            | Some commands \<Rightarrow>
                io_bind (clone exec (repo commands) (join path proj)) (\<lambda>(u, clone_time).
                io_bind (statdir path) (\<lambda>((size1, files1, dirs1), time1).
                io_bind (build exec (cmds commands) (join path proj)) (\<lambda>(u, build_time).
                io_bind (statdir path) (\<lambda>((size2, files2, dirs2), time2).
                io_return
                  (store_all
                     (zip BUILD_RESULTS
                        [VFloat time2, VInt (int size2), VInt (int files2), VInt (int dirs2)])
                  (AList.update BUILD_TIME (VFloat build_time)
                  (store_all
                     (zip CLONE_RESULTS
                        [VFloat time1, VInt (int size1), VInt (int files1), VInt (int dirs1)])
                  (AList.update CLONE_TIME (VFloat clone_time)
                     [(TEST_NAME, VStr proj), (TEST_PATH, VStr path)])))))))))) w)"

text \<open>The \<^verbatim>\<open>with open(output, 'a')\<close> block (lines 214 to 220).\<close>

definition write_results :: "string \<Rightarrow> bool \<Rightarrow> (string \<times> val) list \<Rightarrow> unit io" where
  "write_results output header results =
     io_bind (open_append output) (\<lambda>fobj.
     io_bind (if header
              then writeheader fobj (TEST_RESULTS @ CLONE_RESULTS @ BUILD_RESULTS)
              else io_return ()) (\<lambda>u.
     writerow fobj (TEST_RESULTS @ CLONE_RESULTS @ BUILD_RESULTS) results))"

text \<open>The whole of \<^verbatim>\<open>run_workload\<close>: the two parts, the clean-up and the printed record.\<close>

definition run_workload :: "proc \<Rightarrow> string \<Rightarrow> string \<Rightarrow> string \<Rightarrow> bool \<Rightarrow> unit io" where
  "run_workload exec path proj output header =
     io_bind (measure_workload exec path proj) (\<lambda>results.
     io_bind (write_results output header results) (\<lambda>u.
     io_bind (rmtree (join path proj)) (\<lambda>u.
     print_json results)))"

subsection \<open>A small world to run the script in\<close>

text \<open>
  \<open>example_exec\<close> stands for the child processes: a four-word command (\<^verbatim>\<open>git clone\<close>)
  creates a small tree at its last argument and exits with status 0; \<^verbatim>\<open>make\<close> adds one
  file to its working directory and exits with status 2; any other command cannot be
  launched.
\<close>

definition example_exec :: proc where
  "example_exec argv cw fsys =
     (case argv of
        [g, c, r, p] \<Rightarrow>
          Inr (0, put fsys (resolve cw p)
                 (Dir [(''README'', File ''hello''),
                       (''src'', Dir [(''main.c'', File ''int main;'')])]))
      | [m] \<Rightarrow>
          if m = ''make'' then Inr (2, put fsys (cw @ [''redis-server'']) (File ''ELF''))
          else Inl (LaunchError m)
      | _ \<Rightarrow> Inl (LaunchError ''?''))"

definition example_world :: world where
  "example_world =
     \<lparr>fs = Dir [(''mnt'', Dir [(''t'', Dir [])]), (''home'', Dir [])],
      cwd = [''home''], clock = (\<lambda>n. int (n * n)), reads = 0, calls = [], stdout = []\<rparr>"

subsection \<open>Auxiliary notions for the properties\<close>

text \<open>The same child processes, with the exit status replaced by \<open>st\<close>.\<close>

definition with_status :: "(string list \<Rightarrow> string list \<Rightarrow> node \<Rightarrow> int) \<Rightarrow> proc \<Rightarrow> proc" where
  "with_status st exec argv cw fsys =
     (case exec argv cw fsys of
        Inl e \<Rightarrow> Inl e
      | Inr (rc, fs') \<Rightarrow> Inr (st argv cw fsys, fs'))"

text \<open>Whether a list of components leads to a directory.\<close>

definition dir_at :: "node \<Rightarrow> string list \<Rightarrow> bool" where
  "dir_at r p = (case lookup r p of Some (Dir es) \<Rightarrow> True | _ \<Rightarrow> False)"


text \<open>
  Child processes of another kind: the clone command creates an empty directory, and every
  other command removes the directory \<^verbatim>\<open>/home\<close> and exits with status 0.
\<close>

definition vandal_exec :: proc where
  "vandal_exec argv cw fsys =
     (case argv of
        [g, c, r, p] \<Rightarrow> Inr (0, put fsys (resolve cw p) (Dir []))
      | _ \<Rightarrow> Inr (0, del fsys [''home'']))"













text \<open>The example world with the script started inside the target directory.\<close>

definition example_in_target :: world where
  "example_in_target = example_world\<lparr>cwd := [''mnt'', ''t'']\<rparr>"

text \<open>Child processes that all fail: each exits with status 128 and changes nothing.\<close>

definition failing_exec :: proc where
  "failing_exec argv cw fsys = Inr (128, fsys)"


section \<open>Properties\<close>

subsection \<open>The checks of the target and of the project\<close>



text \<open>
  Claim C5. With a target that is an existing empty directory and a project name that is
  not a key of \<open>PROJECTS\<close>, \<open>run_workload\<close> raises the \<^verbatim>\<open>ValueError\<close> of its third check
  (the spec's UnknownProjectError) and leaves the world it started in: no child process
  has been launched, no clock reading taken, no file changed.
\<close>

theorem run_workload_unknown_project:
  assumes "proj \<notin> set (map fst PROJECTS)" and "node_at w path = Some (Dir [])"
  shows "run_workload exec path proj output header w =
     (Inl (ValueError (''unknown project '' @ [CHR 0x27] @ proj @ [CHR 0x27])), w)"
proof -
  from assms(1) have "map_of PROJECTS proj = None"
    by (simp add: map_of_eq_None_iff)
  with assms(2) show ?thesis
    by (simp add: run_workload_def measure_workload_def io_bind_def io_raise_def
        path_exists_def path_isdir_def listdir_def)
qed

theorem run_workload_unknown_project_witness:
  "''foo'' \<notin> set (map fst PROJECTS) \<and> node_at example_world ''/mnt/t'' = Some (Dir []) \<and>
   run_workload example_exec ''/mnt/t'' ''foo'' ''results.csv'' True example_world =
     (Inl (ValueError (''unknown project '' @ [CHR 0x27] @ ''foo'' @ [CHR 0x27])),
      example_world)"
proof -
  have a: "''foo'' \<notin> set (map fst PROJECTS)"
    by (simp add: PROJECTS_def)
  have b: "node_at example_world ''/mnt/t'' = Some (Dir [])"
    by code_simp
  show ?thesis
    using a b run_workload_unknown_project [OF a b, of example_exec "''results.csv''" True]
    by simp
qed

subsection \<open>The monad\<close>

lemma io_bind_Inr:
  assumes "io_bind m f w = (Inr y, w')"
  obtains x w1 where "m w = (Inr x, w1)" and "f x w1 = (Inr y, w')"
  using assms by (auto simp: io_bind_def split: prod.splits sum.splits)

subsection \<open>Exit statuses\<close>

lemma call_with_status:
  "io_bind (call (with_status st exec) argv) (\<lambda>rc. k) = io_bind (call exec argv) (\<lambda>rc. k)"
  by (rule ext)
    (simp add: io_bind_def call_def with_status_def Let_def split: sum.splits prod.splits)

lemma run_cmds_with_status: "run_cmds (with_status st exec) cs = run_cmds exec cs"
  by (induction cs) (simp_all add: call_with_status)

lemma clone_with_status: "clone (with_status st exec) rp p = clone exec rp p"
  by (simp add: clone_def call_with_status)

lemma build_with_status: "build (with_status st exec) cs p = build exec cs p"
  by (simp add: build_def run_cmds_with_status)

lemma measure_workload_with_status:
  "measure_workload (with_status st exec) path proj = measure_workload exec path proj"
  by (rule ext)
    (simp add: measure_workload_def clone_with_status build_with_status
      cong: option.case_cong if_cong)

text \<open>
  Claim C7, as amended. The exit status of a child process is never looked at: replace
  the statuses the clone command and the build steps end with by any others, zero or not,
  and \<open>run_workload\<close> returns the same outcome and the same world (files, output file and
  printed record included). A non-zero status is therefore no failure by itself, and the
  pipeline goes on to the record exactly when it would have with status 0.
\<close>

theorem run_workload_ignores_exit_status:
  "run_workload (with_status st exec) path proj output header w =
   run_workload exec path proj output header w"
  by (simp add: run_workload_def measure_workload_with_status)

text \<open>
  Claim C7 as stated fails: a clone command that exits with a non-zero status and has
  created no project directory is followed by the first walk, and then the \<^verbatim>\<open>os.chdir\<close>
  of the build phase raises; no build step is launched, no record is written or printed.
\<close>

theorem run_workload_ignores_exit_status_counterexample:
  "fst (run_workload failing_exec ''/mnt/t'' ''redis'' ''results.csv'' True example_world) =
     Inl FileNotFoundError \<and>
   calls (snd (run_workload failing_exec ''/mnt/t'' ''redis'' ''results.csv'' True example_world)) =
     [([''git'', ''clone'', ''git@github.com:antirez/redis.git'', ''/mnt/t/redis''], [''home''], 1)] \<and>
   stdout (snd (run_workload failing_exec ''/mnt/t'' ''redis'' ''results.csv'' True example_world)) =
     [] \<and>
   \<not> path_exists
     (snd (run_workload failing_exec ''/mnt/t'' ''redis'' ''results.csv'' True example_world))
     ''results.csv''"
  by code_simp

subsection \<open>Paths\<close>

lemma splitc_nonempty: "splitc s \<noteq> []"
  by (induction s) (auto split: list.splits)

lemma splitc_plain: "CHR ''/'' \<notin> set n \<Longrightarrow> splitc n = [n]"
  by (induction n) auto

lemma splitc_append_slash:
  "CHR ''/'' \<notin> set n \<Longrightarrow> splitc (a @ CHR ''/'' # n) = splitc a @ [n]"
proof (induction a)
  case Nil
  then show ?case by (simp add: splitc_plain)
next
  case (Cons c a)
  then show ?case
    using splitc_nonempty [of a] by (cases "splitc a") auto
qed

lemma norm_step_valid: "valid_name n \<Longrightarrow> norm_step st n = st @ [n]"
  by (auto simp: norm_step_def valid_name_def)

lemma foldl_norm_step_valid:
  "list_all valid_name cs \<Longrightarrow> foldl norm_step st cs = st @ cs"
  by (induction cs arbitrary: st) (simp_all add: norm_step_valid)

lemma isabs_append: "a \<noteq> [] \<Longrightarrow> isabs (a @ b) = isabs a"
  by (cases a) (simp_all add: isabs_def)

lemma valid_name_not_abs: "valid_name n \<Longrightarrow> \<not> isabs n"
  by (cases n) (auto simp: isabs_def valid_name_def)

lemma resolve_join:
  assumes "valid_name n" and "a \<noteq> []"
  shows "resolve cw (join a n) = resolve cw a @ [n]"
proof (cases "last a = CHR ''/''")
  case True
  with assms(2) obtain a' where a: "a = a' @ ''/''"
    by (metis append_butlast_last_id)
  from assms(1) have n: "CHR ''/'' \<notin> set n"
    by (simp add: valid_name_def)
  have j: "join a n = a' @ CHR ''/'' # n"
    using True assms by (simp add: join_def valid_name_not_abs a)
  have s1: "splitc (join a n) = splitc a' @ [n]"
    by (simp add: j splitc_append_slash n)
  have s2: "splitc a = splitc a' @ [[]]"
    using splitc_append_slash [of "[]" a'] by (simp add: a)
  have ab: "isabs (join a n) = isabs a"
    using isabs_append [OF assms(2), of n] True assms by (simp add: join_def valid_name_not_abs)
  show ?thesis
    by (simp add: resolve_def s1 s2 ab norm_step_valid [OF assms(1)]) (simp add: norm_step_def)
next
  case False
  from assms(1) have n: "CHR ''/'' \<notin> set n"
    by (simp add: valid_name_def)
  have j: "join a n = a @ CHR ''/'' # n"
    using False assms by (simp add: join_def valid_name_not_abs)
  have s1: "splitc (join a n) = splitc a @ [n]"
    by (simp add: j splitc_append_slash n)
  have ab: "isabs (join a n) = isabs a"
    using isabs_append [OF assms(2), of "CHR ''/'' # n"] by (simp add: j)
  show ?thesis
    by (simp add: resolve_def s1 ab norm_step_valid [OF assms(1)])
qed

lemma splitc_render:
  "list_all valid_name cs \<Longrightarrow> splitc (concat (map (\<lambda>c. CHR ''/'' # c) cs)) = [] # cs"
proof (induction cs rule: rev_induct)
  case Nil
  then show ?case by simp
next
  case (snoc c cs)
  then have "CHR ''/'' \<notin> set c"
    by (simp add: valid_name_def)
  with snoc show ?case
    by (simp add: splitc_append_slash)
qed

lemma resolve_abspath_str:
  assumes "list_all valid_name cs"
  shows "resolve cw (abspath_str cs) = cs"
proof (cases "cs = []")
  case True
  then show ?thesis
    by (simp add: abspath_str_def resolve_def isabs_def norm_step_def)
next
  case False
  then obtain c cs' where "cs = c # cs'"
    by (cases cs) auto
  then have "isabs (abspath_str cs)"
    by (simp add: abspath_str_def isabs_def)
  then show ?thesis
    using False assms
    by (simp add: resolve_def abspath_str_def splitc_render foldl_norm_step_valid norm_step_def)
qed

lemma abspath_str_nonempty: "abspath_str cs \<noteq> []"
  by (cases cs) (simp_all add: abspath_str_def)

subsection \<open>The working directory\<close>

lemma timeit_unfold:
  "timeit f w =
     (case f (w\<lparr>reads := Suc (reads w)\<rparr>) of
        (Inl e, w2) \<Rightarrow> (Inl e, w2)
      | (Inr r, w2) \<Rightarrow>
          (Inr (r, clock w2 (reads w2) - clock w (reads w)), w2\<lparr>reads := Suc (reads w2)\<rparr>))"
  by (simp add: timeit_def io_bind_def time_time_def io_return_def split: prod.splits sum.splits)

lemma node_at_abspath_str:
  "list_all valid_name cs \<Longrightarrow> node_at w (abspath_str cs) = lookup (fs w) cs"
  by (simp add: node_at_def abspath_str_nonempty resolve_abspath_str)

lemma withcwd_restores:
  assumes "list_all valid_name (cwd w)" and "withcwd f w = (r, w')"
  shows "(dir_at (fs w') (cwd w) \<longrightarrow> cwd w' = cwd w) \<and> (\<forall>x. r = Inr x \<longrightarrow> cwd w' = cwd w)"
proof (cases "getcwd w")
  case (Pair g w1)
  show ?thesis
  proof (cases g)
    case (Inl e)
    with Pair assms(2) have "w' = w"
      by (auto simp: withcwd_def getcwd_def split: option.splits node.splits)
    then show ?thesis by simp
  next
    case (Inr saved)
    with Pair have s: "saved = abspath_str (cwd w)" and w1: "w1 = w"
      by (auto simp: getcwd_def split: option.splits node.splits)
    obtain outcome w2 where f: "f w = (outcome, w2)"
      by (cases "f w")
    have n: "node_at w2 saved = lookup (fs w2) (cwd w)"
      by (simp add: s node_at_abspath_str assms(1))
    have r: "resolve (cwd w2) saved = cwd w"
      by (simp add: s resolve_abspath_str assms(1))
    show ?thesis
      using assms(2) Pair Inr f n r w1
      by (auto simp: withcwd_def chdir_def dir_at_def split: option.splits node.splits)
  qed
qed

lemma timeit_frame:
  assumes "timeit f w = (r, w')"
  obtains r2 w2 where "f (w\<lparr>reads := Suc (reads w)\<rparr>) = (r2, w2)"
    and "fs w' = fs w2" and "cwd w' = cwd w2" and "calls w' = calls w2"
    and "stdout w' = stdout w2" and "isl r = isl r2"
proof (cases "f (w\<lparr>reads := Suc (reads w)\<rparr>)")
  case (Pair r2 w2)
  with assms have "fs w' = fs w2 \<and> cwd w' = cwd w2 \<and> calls w' = calls w2
      \<and> stdout w' = stdout w2 \<and> isl r = isl r2"
    by (auto simp: timeit_unfold split: sum.splits)
  with Pair that show ?thesis by blast
qed

text \<open>
  Claim C8, as amended. \<open>build\<close> saves the working directory and changes back to it when
  its steps are over, after a result and after an exception alike. The working directory
  is the saved one whenever \<open>build\<close> returns a result, and also when it raises while the
  saved directory still exists; so every later operation of \<open>run_workload\<close> runs from the
  working directory of before. (When the saved directory has been removed meanwhile, the
  restoring \<^verbatim>\<open>os.chdir\<close> raises.) The working directory of the process is taken to be
  a list of entry names, as the operating system keeps it.
\<close>

theorem build_restores_cwd:
  assumes "list_all valid_name (cwd w)" and "build exec cs path w = (r, w')"
  shows "(dir_at (fs w') (cwd w) \<longrightarrow> cwd w' = cwd w) \<and> (\<forall>x. r = Inr x \<longrightarrow> cwd w' = cwd w)"
proof -
  from assms(2) obtain r2 w2 where
    b: "withcwd (io_bind (chdir path) (\<lambda>u. run_cmds exec cs)) (w\<lparr>reads := Suc (reads w)\<rparr>) = (r2, w2)"
    and f: "fs w' = fs w2" "cwd w' = cwd w2" and l: "isl r = isl r2"
    unfolding build_def by (rule timeit_frame)
  have "list_all valid_name (cwd (w\<lparr>reads := Suc (reads w)\<rparr>))"
    using assms(1) by simp
  from withcwd_restores [OF this b] f l show ?thesis
    by (cases r; cases r2) auto
qed

theorem build_restores_cwd_witness:
  "list_all valid_name (cwd example_world) \<and>
   fst (build example_exec [[''make'']] ''/mnt/t'' example_world) = Inr ((), 1) \<and>
   cwd (snd (build example_exec [[''make'']] ''/mnt/t'' example_world)) = cwd example_world \<and>
   fst (build example_exec [[''./configure'']] ''/mnt/t'' example_world) =
     Inl (LaunchError ''./configure'') \<and>
   cwd (snd (build example_exec [[''./configure'']] ''/mnt/t'' example_world)) =
     cwd example_world"
proof -
  have a: "list_all valid_name (cwd example_world)"
    by code_simp
  have b: "fst (build example_exec [[''make'']] ''/mnt/t'' example_world) = Inr ((), 1)"
    by code_simp
  have c: "build example_exec [[''make'']] ''/mnt/t'' example_world =
      (Inr ((), 1), snd (build example_exec [[''make'']] ''/mnt/t'' example_world))"
    using b by (metis prod.collapse)
  have d: "fst (build example_exec [[''./configure'']] ''/mnt/t'' example_world) =
      Inl (LaunchError ''./configure'')"
    by code_simp
  have e: "build example_exec [[''./configure'']] ''/mnt/t'' example_world =
      (Inl (LaunchError ''./configure''),
       snd (build example_exec [[''./configure'']] ''/mnt/t'' example_world))"
    using d by (metis prod.collapse)
  have f: "dir_at (fs (snd (build example_exec [[''./configure'']] ''/mnt/t'' example_world)))
      (cwd example_world)"
    by code_simp
  show ?thesis
    using a b d f build_restores_cwd [OF a c] build_restores_cwd [OF a e]
    by simp
qed

text \<open>
  Claim C8 as stated fails: a build step that removes the directory the script was started
  in makes the \<^verbatim>\<open>os.chdir\<close> of the \<^verbatim>\<open>finally\<close> clause raise, and the working directory
  stays in the cloned project.
\<close>

theorem build_restores_cwd_counterexample:
  "list_all valid_name (cwd example_world) \<and>
   fst (build vandal_exec [[''make'']] ''/mnt/t'' example_world) = Inl FileNotFoundError \<and>
   cwd (snd (build vandal_exec [[''make'']] ''/mnt/t'' example_world)) \<noteq> cwd example_world \<and>
   fst (run_workload vandal_exec ''/mnt/t'' ''redis'' ''results.csv'' False example_world) =
     Inl FileNotFoundError \<and>
   cwd (snd (run_workload vandal_exec ''/mnt/t'' ''redis'' ''results.csv'' False example_world)) =
     [''mnt'', ''t'', ''redis''] \<and>
   cwd example_world = [''home'']"
  by code_simp

subsection \<open>What each step changes\<close>

lemma node_at_reads [simp]: "node_at (w\<lparr>reads := n\<rparr>) p = node_at w p"
  by (simp add: node_at_def)

lemma path_error_reads [simp]: "path_error (w\<lparr>reads := n\<rparr>) p = path_error w p"
  by (simp add: path_error_def)

lemma getsize_reads [simp]: "getsize (w\<lparr>reads := n\<rparr>) p = getsize w p"
  by (simp add: getsize_def cong: option.case_cong)

lemma sum_sizes_reads [simp]: "sum_sizes (w\<lparr>reads := n\<rparr>) root names = sum_sizes w root names"
  by (induction names) (simp_all cong: sum.case_cong)

lemma stat_loop_reads [simp]: "stat_loop (w\<lparr>reads := n\<rparr>) ts acc = stat_loop w ts acc"
  by (induction w ts acc rule: stat_loop.induct) (simp_all cong: sum.case_cong)

lemma os_walk_reads [simp]: "os_walk (w\<lparr>reads := n\<rparr>) p = os_walk w p"
  by (simp add: os_walk_def)





subsection \<open>A run that measures\<close>

lemmas key_defs =
  TEST_NAME_def TEST_PATH_def CLONE_TIME_def CLONE_STAT_def CLONE_BYTES_def CLONE_FILES_def
  CLONE_DIRS_def BUILD_TIME_def BUILD_STAT_def BUILD_BYTES_def BUILD_FILES_def BUILD_DIRS_def

lemma results_explicit:
  "store_all (zip BUILD_RESULTS [b1, b2, b3, b4])
     (AList.update BUILD_TIME bt
       (store_all (zip CLONE_RESULTS [c1, c2, c3, c4])
         (AList.update CLONE_TIME ct [(TEST_NAME, n), (TEST_PATH, p)]))) =
   [(TEST_NAME, n), (TEST_PATH, p), (CLONE_TIME, ct), (CLONE_STAT, c1), (CLONE_BYTES, c2),
    (CLONE_FILES, c3), (CLONE_DIRS, c4), (BUILD_TIME, bt), (BUILD_STAT, b1), (BUILD_BYTES, b2),
    (BUILD_FILES, b3), (BUILD_DIRS, b4)]"
  by (simp add: BUILD_RESULTS_def CLONE_RESULTS_def key_defs)

lemma measure_workload_Inr:
  assumes "measure_workload exec path proj w = (Inr res, w4)"
  obtains commands ct w1 s1 f1 d1 t1 w2 bt w3 s2 f2 d2 t2 where
    "node_at w path = Some (Dir [])"
    and "map_of PROJECTS proj = Some commands"
    and "clone exec (repo commands) (join path proj) w = (Inr ((), ct), w1)"
    and "statdir path w1 = (Inr ((s1, f1, d1), t1), w2)"
    and "build exec (cmds commands) (join path proj) w2 = (Inr ((), bt), w3)"
    and "statdir path w3 = (Inr ((s2, f2, d2), t2), w4)"
    and "res =
      [(TEST_NAME, VStr proj), (TEST_PATH, VStr path), (CLONE_TIME, VFloat ct),
       (CLONE_STAT, VFloat t1), (CLONE_BYTES, VInt (int s1)), (CLONE_FILES, VInt (int f1)),
       (CLONE_DIRS, VInt (int d1)), (BUILD_TIME, VFloat bt), (BUILD_STAT, VFloat t2),
       (BUILD_BYTES, VInt (int s2)), (BUILD_FILES, VInt (int f2)), (BUILD_DIRS, VInt (int d2))]"
proof -
  from assms have ok: "path_exists w path" "path_isdir w path"
    and rest: "io_bind (listdir path) (\<lambda>names.
         if length names > 0 then io_raise (ValueError (path @ '' is not empty!''))
         else
           (case map_of PROJECTS proj of
              None \<Rightarrow>
                io_raise (ValueError (''unknown project '' @ [CHR 0x27] @ proj @ [CHR 0x27]))
            | Some commands \<Rightarrow>
                io_bind (clone exec (repo commands) (join path proj)) (\<lambda>(u, clone_time).
                io_bind (statdir path) (\<lambda>((size1, files1, dirs1), time1).
                io_bind (build exec (cmds commands) (join path proj)) (\<lambda>(u, build_time).
                io_bind (statdir path) (\<lambda>((size2, files2, dirs2), time2).
                io_return
                  (store_all
                     (zip BUILD_RESULTS
                        [VFloat time2, VInt (int size2), VInt (int files2), VInt (int dirs2)])
                  (AList.update BUILD_TIME (VFloat build_time)
                  (store_all
                     (zip CLONE_RESULTS
                        [VFloat time1, VInt (int size1), VInt (int files1), VInt (int dirs1)])
                  (AList.update CLONE_TIME (VFloat clone_time)
                     [(TEST_NAME, VStr proj), (TEST_PATH, VStr path)])))))))))) w = (Inr res, w4)"
    by (auto simp: measure_workload_def split: if_splits)
  from rest obtain names w0 where l: "listdir path w = (Inr names, w0)"
    and r1: "(if length names > 0 then io_raise (ValueError (path @ '' is not empty!''))
         else
           (case map_of PROJECTS proj of
              None \<Rightarrow>
                io_raise (ValueError (''unknown project '' @ [CHR 0x27] @ proj @ [CHR 0x27]))
            | Some commands \<Rightarrow>
                io_bind (clone exec (repo commands) (join path proj)) (\<lambda>(u, clone_time).
                io_bind (statdir path) (\<lambda>((size1, files1, dirs1), time1).
                io_bind (build exec (cmds commands) (join path proj)) (\<lambda>(u, build_time).
                io_bind (statdir path) (\<lambda>((size2, files2, dirs2), time2).
                io_return
                  (store_all
                     (zip BUILD_RESULTS
                        [VFloat time2, VInt (int size2), VInt (int files2), VInt (int dirs2)])
                  (AList.update BUILD_TIME (VFloat build_time)
                  (store_all
                     (zip CLONE_RESULTS
                        [VFloat time1, VInt (int size1), VInt (int files1), VInt (int dirs1)])
                  (AList.update CLONE_TIME (VFloat clone_time)
                     [(TEST_NAME, VStr proj), (TEST_PATH, VStr path)])))))))))) w0 = (Inr res, w4)"
    by (rule io_bind_Inr)
  from l have w0: "w0 = w" and names: "\<exists>es. node_at w path = Some (Dir es) \<and> names = map fst es"
    by (auto simp: listdir_def split: option.splits node.splits)
  from r1 have e: "names = []"
    by (auto simp: io_raise_def split: if_splits)
  with names have n: "node_at w path = Some (Dir [])"
    by auto
  from r1 e obtain commands where p: "map_of PROJECTS proj = Some commands"
    by (cases "map_of PROJECTS proj") (auto simp: io_raise_def)
  from r1 e p w0 have r2:
    "io_bind (clone exec (repo commands) (join path proj)) (\<lambda>(u, clone_time).
                io_bind (statdir path) (\<lambda>((size1, files1, dirs1), time1).
                io_bind (build exec (cmds commands) (join path proj)) (\<lambda>(u, build_time).
                io_bind (statdir path) (\<lambda>((size2, files2, dirs2), time2).
                io_return
                  (store_all
                     (zip BUILD_RESULTS
                        [VFloat time2, VInt (int size2), VInt (int files2), VInt (int dirs2)])
                  (AList.update BUILD_TIME (VFloat build_time)
                  (store_all
                     (zip CLONE_RESULTS
                        [VFloat time1, VInt (int size1), VInt (int files1), VInt (int dirs1)])
                  (AList.update CLONE_TIME (VFloat clone_time)
                     [(TEST_NAME, VStr proj), (TEST_PATH, VStr path)])))))))) w = (Inr res, w4)"
    by simp
  from r2 obtain x1 w1 where c: "clone exec (repo commands) (join path proj) w = (Inr x1, w1)"
    and r3: "(case x1 of (u, clone_time) \<Rightarrow>
                io_bind (statdir path) (\<lambda>((size1, files1, dirs1), time1).
                io_bind (build exec (cmds commands) (join path proj)) (\<lambda>(u, build_time).
                io_bind (statdir path) (\<lambda>((size2, files2, dirs2), time2).
                io_return
                  (store_all
                     (zip BUILD_RESULTS
                        [VFloat time2, VInt (int size2), VInt (int files2), VInt (int dirs2)])
                  (AList.update BUILD_TIME (VFloat build_time)
                  (store_all
                     (zip CLONE_RESULTS
                        [VFloat time1, VInt (int size1), VInt (int files1), VInt (int dirs1)])
                  (AList.update CLONE_TIME (VFloat clone_time)
                     [(TEST_NAME, VStr proj), (TEST_PATH, VStr path)])))))))) w1 = (Inr res, w4)"
    by (rule io_bind_Inr)
  obtain ct where x1: "x1 = ((), ct)" by (cases x1) auto
  from r3 x1 obtain x2 w2 where s: "statdir path w1 = (Inr x2, w2)"
    and r4: "(case x2 of ((size1, files1, dirs1), time1) \<Rightarrow>
                io_bind (build exec (cmds commands) (join path proj)) (\<lambda>(u, build_time).
                io_bind (statdir path) (\<lambda>((size2, files2, dirs2), time2).
                io_return
                  (store_all
                     (zip BUILD_RESULTS
                        [VFloat time2, VInt (int size2), VInt (int files2), VInt (int dirs2)])
                  (AList.update BUILD_TIME (VFloat build_time)
                  (store_all
                     (zip CLONE_RESULTS
                        [VFloat time1, VInt (int size1), VInt (int files1), VInt (int dirs1)])
                  (AList.update CLONE_TIME (VFloat ct)
                     [(TEST_NAME, VStr proj), (TEST_PATH, VStr path)]))))))) w2 = (Inr res, w4)"
    by (auto elim: io_bind_Inr)
  obtain s1 f1 d1 t1 where x2: "x2 = ((s1, f1, d1), t1)" by (cases x2) auto
  from r4 x2 obtain x3 w3 where b: "build exec (cmds commands) (join path proj) w2 = (Inr x3, w3)"
    and r5: "(case x3 of (u, build_time) \<Rightarrow>
                io_bind (statdir path) (\<lambda>((size2, files2, dirs2), time2).
                io_return
                  (store_all
                     (zip BUILD_RESULTS
                        [VFloat time2, VInt (int size2), VInt (int files2), VInt (int dirs2)])
                  (AList.update BUILD_TIME (VFloat build_time)
                  (store_all
                     (zip CLONE_RESULTS
                        [VFloat t1, VInt (int s1), VInt (int f1), VInt (int d1)])
                  (AList.update CLONE_TIME (VFloat ct)
                     [(TEST_NAME, VStr proj), (TEST_PATH, VStr path)])))))) w3 = (Inr res, w4)"
    by (auto elim: io_bind_Inr)
  obtain bt where x3: "x3 = ((), bt)" by (cases x3) auto
  from r5 x3 obtain x4 w4' where s': "statdir path w3 = (Inr x4, w4')"
    and r6: "(case x4 of ((size2, files2, dirs2), time2) \<Rightarrow>
                io_return
                  (store_all
                     (zip BUILD_RESULTS
                        [VFloat time2, VInt (int size2), VInt (int files2), VInt (int dirs2)])
                  (AList.update BUILD_TIME (VFloat bt)
                  (store_all
                     (zip CLONE_RESULTS
                        [VFloat t1, VInt (int s1), VInt (int f1), VInt (int d1)])
                  (AList.update CLONE_TIME (VFloat ct)
                     [(TEST_NAME, VStr proj), (TEST_PATH, VStr path)]))))) w4' = (Inr res, w4)"
    by (auto elim: io_bind_Inr)
  obtain s2 f2 d2 t2 where x4: "x4 = ((s2, f2, d2), t2)" by (cases x4) auto
  from r6 x4 have "w4' = w4" and "res =
      [(TEST_NAME, VStr proj), (TEST_PATH, VStr path), (CLONE_TIME, VFloat ct),
       (CLONE_STAT, VFloat t1), (CLONE_BYTES, VInt (int s1)), (CLONE_FILES, VInt (int f1)),
       (CLONE_DIRS, VInt (int d1)), (BUILD_TIME, VFloat bt), (BUILD_STAT, VFloat t2),
       (BUILD_BYTES, VInt (int s2)), (BUILD_FILES, VInt (int f2)), (BUILD_DIRS, VInt (int d2))]"
    by (auto simp add: io_return_def results_explicit simp del: AList.update.simps)
  with n p c s b s' x1 x2 x3 x4 that show ?thesis
    by blast
qed

subsection \<open>A run that completes\<close>







lemma run_workload_Inr:
  assumes "run_workload exec path proj output header w = (Inr u, w')"
  obtains res w1 w2 w3 where
    "measure_workload exec path proj w = (Inr res, w1)"
    and "write_results output header res w1 = (Inr (), w2)"
    and "rmtree (join path proj) w2 = (Inr (), w3)"
    and "w' = w3\<lparr>stdout := stdout w3 @ [res]\<rparr>"
proof -
  from assms obtain res w1 where m: "measure_workload exec path proj w = (Inr res, w1)"
    and r1: "io_bind (write_results output header res) (\<lambda>u.
       io_bind (rmtree (join path proj)) (\<lambda>u. print_json res)) w1 = (Inr u, w')"
    unfolding run_workload_def by (rule io_bind_Inr)
  from r1 obtain w2 where wr: "write_results output header res w1 = (Inr (), w2)"
    and r2: "io_bind (rmtree (join path proj)) (\<lambda>u. print_json res) w2 = (Inr u, w')"
    by (auto elim: io_bind_Inr)
  from r2 obtain w3 where rm: "rmtree (join path proj) w2 = (Inr (), w3)"
    and pr: "print_json res w3 = (Inr u, w')"
    by (auto elim: io_bind_Inr)
  from pr have "w' = w3\<lparr>stdout := stdout w3 @ [res]\<rparr>"
    by (auto simp: print_json_def)
  with m wr rm that show ?thesis by blast
qed



subsection \<open>Looking up after a change of the file system\<close>



lemma lookup_del_same: "q \<noteq> [] \<Longrightarrow> lookup (del r q) q = None"
proof (induction q arbitrary: r)
  case Nil
  then show ?case by simp
next
  case (Cons c cs)
  show ?case
  proof (cases r)
    case (File s)
    then show ?thesis by simp
  next
    case (Dir es)
    show ?thesis
    proof (cases "cs = []")
      case True
      with Dir show ?thesis by (simp add: delete_conv')
    next
      case False
      with Dir Cons.IH [OF False] show ?thesis
        by (auto simp: update_conv' split: option.splits)
    qed
  qed
qed

lemma lookup_snoc:
  "lookup r (p @ [n]) = Some x \<Longrightarrow> \<exists>es. lookup r p = Some (Dir es) \<and> map_of es n = Some x"
proof (induction p arbitrary: r)
  case Nil
  then show ?case by (cases r) (auto split: option.splits)
next
  case (Cons c cs)
  then show ?case by (cases r) (auto split: option.splits)
qed

lemma lookup_del_parent:
  "lookup r p = Some (Dir es) \<Longrightarrow> lookup (del r (p @ [n])) p = Some (Dir (AList.delete n es))"
proof (induction p arbitrary: r)
  case Nil
  then show ?case by simp
next
  case (Cons c cs)
  then show ?case
    by (cases r) (auto simp: update_conv' split: option.splits)
qed

subsection \<open>Writing the results\<close>





lemma io_bind_InlI: "m w = (Inl e, w1) \<Longrightarrow> io_bind m f w = (Inl e, w1)"
  by (simp add: io_bind_def)





subsection \<open>The row written and a failing write\<close>











subsection \<open>The directory walk\<close>




















subsection \<open>The clean-up\<close>

lemma registered_valid_name: "map_of PROJECTS proj = Some c \<Longrightarrow> valid_name proj"
  by (auto simp: PROJECTS_def valid_name_def split: if_splits)

lemma run_workload_measure_raises:
  "measure_workload exec path proj w = (Inl e, w1) \<Longrightarrow>
   run_workload exec path proj output header w = (Inl e, w1)"
  by (simp add: run_workload_def io_bind_InlI)

lemma delete_filter: "AList.delete k es = filter (\<lambda>(n, c). n \<noteq> k) es"
  by (induction es) auto

lemma rmtree_Inr:
  assumes "rmtree p w = (Inr (), w')"
  shows "w' = w\<lparr>fs := del (fs w) (resolve (cwd w) p)\<rparr>" and "p \<noteq> []"
    and "\<exists>es. lookup (fs w) (resolve (cwd w) p) = Some (Dir es)"
  using assms
  by (auto simp: rmtree_def node_at_def split: option.splits node.splits if_splits)

text \<open>
  Claim C3, as amended. A run that completes has removed \<^verbatim>\<open>join(path, project)\<close> with all
  below it: the path names nothing afterwards, and the target directory holds the entries
  it held when the results had been written, less the one named after the project. So
  the target is empty again exactly when the clone was its only entry then. When the
  checks, the clone, the build or a walk raise, \<open>run_workload\<close> raises the same exception
  in the world reached at that point: nothing is removed afterwards.
\<close>

theorem run_workload_cleanup:
  "(\<forall>u w'. run_workload exec path proj output header w = (Inr u, w') \<longrightarrow>
      node_at w' (join path proj) = None \<and>
      (\<exists>res w1 w2 es.
         measure_workload exec path proj w = (Inr res, w1) \<and>
         write_results output header res w1 = (Inr (), w2) \<and>
         node_at w2 path = Some (Dir es) \<and>
         node_at w' path = Some (Dir (filter (\<lambda>(n, c). n \<noteq> proj) es)) \<and>
         (node_at w' path = Some (Dir []) \<longleftrightarrow> list_all (\<lambda>(n, c). n = proj) es))) \<and>
   (\<forall>e w1. measure_workload exec path proj w = (Inl e, w1) \<longrightarrow>
      run_workload exec path proj output header w = (Inl e, w1))"
proof (intro conjI allI impI)
  fix e w1
  assume "measure_workload exec path proj w = (Inl e, w1)"
  then show "run_workload exec path proj output header w = (Inl e, w1)"
    by (rule run_workload_measure_raises)
next
  fix u w'
  assume run: "run_workload exec path proj output header w = (Inr u, w')"
  then obtain res w1 w2 w3 where
    m: "measure_workload exec path proj w = (Inr res, w1)"
    and wr: "write_results output header res w1 = (Inr (), w2)"
    and rm: "rmtree (join path proj) w2 = (Inr (), w3)"
    and w': "w' = w3\<lparr>stdout := stdout w3 @ [res]\<rparr>"
    by (rule run_workload_Inr)
  from m obtain commands where t: "node_at w path = Some (Dir [])"
    and p: "map_of PROJECTS proj = Some commands"
    by (rule measure_workload_Inr)
  from t have ne: "path \<noteq> []"
    by (auto simp: node_at_def split: if_splits)
  from p have v: "valid_name proj"
    by (rule registered_valid_name)
  let ?tp = "resolve (cwd w2) path"
  have q: "resolve (cwd w2) (join path proj) = ?tp @ [proj]"
    using v ne by (rule resolve_join)
  note r = rmtree_Inr [OF rm]
  from r(3) obtain ds where "lookup (fs w2) (?tp @ [proj]) = Some (Dir ds)"
    by (auto simp: q)
  then obtain es where es: "lookup (fs w2) ?tp = Some (Dir es)"
    by (auto dest: lookup_snoc)
  have f': "fs w' = del (fs w2) (?tp @ [proj])" and c': "cwd w' = cwd w2"
    by (simp_all add: w', (subst r(1), simp add: q)+)
  have gone: "node_at w' (join path proj) = None"
    using lookup_del_same [of "?tp @ [proj]" "fs w2"]
    by (simp add: node_at_def f' c' q)
  have parent: "node_at w' path = Some (Dir (filter (\<lambda>(n, c). n \<noteq> proj) es))"
    using lookup_del_parent [OF es, of proj]
    by (simp add: node_at_def f' c' ne delete_filter)
  have "(filter (\<lambda>(n, c). n \<noteq> proj) es = []) = list_all (\<lambda>(n, c). n = proj) es"
    by (induction es) auto
  with parent have empty: "node_at w' path = Some (Dir []) \<longleftrightarrow> list_all (\<lambda>(n, c). n = proj) es"
    by simp
  from es ne have "node_at w2 path = Some (Dir es)"
    by (simp add: node_at_def)
  with m wr parent empty show "\<exists>res w1 w2 es.
         measure_workload exec path proj w = (Inr res, w1) \<and>
         write_results output header res w1 = (Inr (), w2) \<and>
         node_at w2 path = Some (Dir es) \<and>
         node_at w' path = Some (Dir (filter (\<lambda>(n, c). n \<noteq> proj) es)) \<and>
         (node_at w' path = Some (Dir []) \<longleftrightarrow> list_all (\<lambda>(n, c). n = proj) es)"
    by blast
  show "node_at w' (join path proj) = None"
    by (rule gone)
qed

theorem run_workload_cleanup_witness:
  "fst (run_workload example_exec ''/mnt/t'' ''redis'' ''results.csv'' True example_world) = Inr () \<and>
   node_at (snd (run_workload example_exec ''/mnt/t'' ''redis'' ''results.csv'' True example_world))
     (join ''/mnt/t'' ''redis'') = None \<and>
   node_at (snd (run_workload example_exec ''/mnt/t'' ''redis'' ''results.csv'' True example_world))
     ''/mnt/t'' = Some (Dir []) \<and>
   run_workload example_exec ''/mnt/t'' ''nginx'' ''results.csv'' True example_world =
     (Inl (LaunchError ''./auto/configure''),
      snd (measure_workload example_exec ''/mnt/t'' ''nginx'' example_world)) \<and>
   node_at (snd (measure_workload example_exec ''/mnt/t'' ''nginx'' example_world))
     ''/mnt/t/nginx'' \<noteq> None"
proof -
  have b: "fst (run_workload example_exec ''/mnt/t'' ''redis'' ''results.csv'' True example_world) =
      Inr ()"
    by code_simp
  have c: "run_workload example_exec ''/mnt/t'' ''redis'' ''results.csv'' True example_world =
      (Inr (), snd (run_workload example_exec ''/mnt/t'' ''redis'' ''results.csv'' True example_world))"
    using b by (metis prod.collapse)
  have d: "node_at (snd (run_workload example_exec ''/mnt/t'' ''redis'' ''results.csv'' True
      example_world)) ''/mnt/t'' = Some (Dir [])"
    by code_simp
  have e: "fst (measure_workload example_exec ''/mnt/t'' ''nginx'' example_world) =
      Inl (LaunchError ''./auto/configure'')"
    by code_simp
  have f: "measure_workload example_exec ''/mnt/t'' ''nginx'' example_world =
      (Inl (LaunchError ''./auto/configure''),
       snd (measure_workload example_exec ''/mnt/t'' ''nginx'' example_world))"
    using e by (metis prod.collapse)
  have g: "node_at (snd (measure_workload example_exec ''/mnt/t'' ''nginx'' example_world))
     ''/mnt/t/nginx'' \<noteq> None"
    by code_simp
  show ?thesis
    using b c d f g
      run_workload_cleanup [of example_exec "''/mnt/t''" "''redis''" "''results.csv''" True
        example_world]
      run_workload_cleanup [of example_exec "''/mnt/t''" "''nginx''" "''results.csv''" True
        example_world]
    by simp
qed

text \<open>
  Claim C3 as stated fails: started inside the target directory with the default output
  name, a run completes and leaves \<^verbatim>\<open>results.csv\<close> in the target, which is then not
  empty; a second run is refused.
\<close>

theorem run_workload_cleanup_counterexample:
  "node_at example_in_target ''.'' = Some (Dir []) \<and>
   fst (run_workload example_exec ''.'' ''redis'' ''results.csv'' False example_in_target) = Inr () \<and>
   fst (listdir ''.''
     (snd (run_workload example_exec ''.'' ''redis'' ''results.csv'' False example_in_target))) =
     Inr [''results.csv''] \<and>
   fst (run_workload example_exec ''.'' ''redis'' ''results.csv'' False
     (snd (run_workload example_exec ''.'' ''redis'' ''results.csv'' False example_in_target))) =
     Inl (ValueError ''. is not empty!'')"
  by code_simp

end
